theory Spec2Isabelle
  imports Complex_Main "HOL-Library.Word"
begin

section \<open>Hand Tracking POC: the configuration module\<close>

text \<open>
  The module \<^verbatim>\<open>config.py\<close> consists of the class \<^verbatim>\<open>Config\<close> (a table of class
  attributes), the singleton \<^verbatim>\<open>config = Config()\<close> and the procedure
  \<^verbatim>\<open>print_config\<close>. Python integers are modelled as \<^typ>\<open>int\<close>, strings as
  \<^typ>\<open>string\<close>, tuples as products, the dictionary \<^verbatim>\<open>STATE_COLORS\<close> as an association
  list in insertion order, and the \<^verbatim>\<open>uint8\<close> arrays as lists of 8-bit words.
\<close>

subsection \<open>Values of the attribute table\<close>

text \<open>
  A Python float attribute is kept as the decimal literal written in the source:
  \<open>Decimal m k\<close> stands for the literal whose digits are \<open>m\<close> with \<open>k\<close> of them after the
  point (\<^verbatim>\<open>1.2\<close> is \<open>Decimal 12 1\<close>). The module does no arithmetic on them.
\<close>

datatype float_literal = Decimal int nat

type_synonym uint8 = "8 word"

text \<open>
  \<^verbatim>\<open>np.array(xs, dtype=np.uint8)\<close>: every element is stored in 8 bits. An element outside
  \<open>0..255\<close> would not be stored as written; \<open>word_of_int\<close> keeps the low 8 bits.
\<close>

definition np_array_uint8 :: "int list \<Rightarrow> uint8 list" where
  "np_array_uint8 xs = map word_of_int xs"

subsection \<open>The class Config\<close>

record Config =
  CAMERA_WIDTH :: int
  CAMERA_HEIGHT :: int
  CAMERA_ID :: int
  FPS_TARGET :: int
  LOWER_SKIN :: "uint8 list"
  UPPER_SKIN :: "uint8 list"
  USE_YCRCB :: bool
  LOWER_SKIN_YCRCB :: "uint8 list"
  UPPER_SKIN_YCRCB :: "uint8 list"
  BOUNDARY_TYPE :: string
  BOUNDARY_X :: int
  BOUNDARY_COLOR :: "int \<times> int \<times> int"
  BOUNDARY_THICKNESS :: int
  SAFE_DISTANCE :: int
  WARNING_DISTANCE :: int
  DANGER_DISTANCE :: int
  STATE_COLORS :: "(string \<times> (int \<times> int \<times> int)) list"
  FONT :: int
  FONT_SCALE_LARGE :: float_literal
  FONT_SCALE_MEDIUM :: float_literal
  FONT_SCALE_SMALL :: float_literal
  FONT_THICKNESS_BOLD :: int
  FONT_THICKNESS_NORMAL :: int
  KERNEL_SIZE :: int
  MORPH_ITERATIONS :: int
  MIN_CONTOUR_AREA :: int
  BLUR_KERNEL_SIZE :: "int \<times> int"
  FPS_BUFFER_SIZE :: int
  SHOW_DEBUG_WINDOW :: bool
  PRINT_INTERVAL :: int
  PREFER_LOWER_SCREEN :: bool
  LOWER_SCREEN_THRESHOLD :: float_literal
  MIRROR_CAMERA :: bool

text \<open>The singleton instance \<^verbatim>\<open>config = Config()\<close>: the attribute values of the class body.\<close>

definition config :: Config where
  "config = \<lparr>
     CAMERA_WIDTH = 640,
     CAMERA_HEIGHT = 480,
     CAMERA_ID = 0,
     FPS_TARGET = 8,
     LOWER_SKIN = np_array_uint8 [0, 20, 70],
     UPPER_SKIN = np_array_uint8 [20, 255, 255],
     USE_YCRCB = False,
     LOWER_SKIN_YCRCB = np_array_uint8 [0, 133, 77],
     UPPER_SKIN_YCRCB = np_array_uint8 [255, 173, 127],
     BOUNDARY_TYPE = ''line'',
     BOUNDARY_X = 320,
     BOUNDARY_COLOR = (0, 0, 255),
     BOUNDARY_THICKNESS = 3,
     SAFE_DISTANCE = 100,
     WARNING_DISTANCE = 50,
     DANGER_DISTANCE = 50,
     STATE_COLORS =
       [(''SAFE'', (0, 255, 0)),
        (''WARNING'', (0, 165, 255)),
        (''DANGER'', (0, 0, 255))],
     FONT = 0,
     FONT_SCALE_LARGE = Decimal 12 1,
     FONT_SCALE_MEDIUM = Decimal 8 1,
     FONT_SCALE_SMALL = Decimal 6 1,
     FONT_THICKNESS_BOLD = 3,
     FONT_THICKNESS_NORMAL = 2,
     KERNEL_SIZE = 5,
     MORPH_ITERATIONS = 2,
     MIN_CONTOUR_AREA = 1000,
     BLUR_KERNEL_SIZE = (5, 5),
     FPS_BUFFER_SIZE = 30,
     SHOW_DEBUG_WINDOW = True,
     PRINT_INTERVAL = 30,
     PREFER_LOWER_SCREEN = False,
     LOWER_SCREEN_THRESHOLD = Decimal 4 1,
     MIRROR_CAMERA = True
   \<rparr>"

text \<open>
  The boundary geometries the comment on \<^verbatim>\<open>BOUNDARY_TYPE\<close> lists as options
  (\<^verbatim>\<open>"line", "box", "circle"\<close>).
\<close>

definition boundary_type_options :: "string list" where
  "boundary_type_options = [''line'', ''box'', ''circle'']"

subsection \<open>Boundary states and the classification rule\<close>

text \<open>
  Modelled from the spec: the enum \<^verbatim>\<open>BoundaryState\<close> of the data model (section 3),
  \<^verbatim>\<open>{SAFE, WARNING, DANGER}\<close>. The source at hand does not declare it: \<^verbatim>\<open>config.py\<close> only
  uses the names of its members, as the keys of \<^verbatim>\<open>STATE_COLORS\<close>. \<open>state_name\<close> is the name
  of a member as a string.
\<close>

datatype BoundaryState = SAFE | WARNING | DANGER

fun state_name :: "BoundaryState \<Rightarrow> string" where
  "state_name SAFE = ''SAFE''"
| "state_name WARNING = ''WARNING''"
| "state_name DANGER = ''DANGER''"

text \<open>
  Modelled from the spec: the classification rule of the Boundary Evaluator (section 4.3),
  which is not part of \<^verbatim>\<open>config.py\<close>: \<^verbatim>\<open>distance > SAFE_DISTANCE\<close> gives SAFE,
  \<^verbatim>\<open>DANGER_DISTANCE <= distance <= SAFE_DISTANCE\<close> gives WARNING,
  \<^verbatim>\<open>distance < DANGER_DISTANCE\<close> gives DANGER. One equation per sentence of the rule, as a
  relation between a distance and a state, so that nothing about the number of states a
  distance receives is built in. The thresholds are those of a \<open>Config\<close>; the comments on
  lines 53 to 55 of \<^verbatim>\<open>config.py\<close> describe the same three bands.
\<close>

fun classification_rule :: "Config \<Rightarrow> real \<Rightarrow> BoundaryState \<Rightarrow> bool" where
  "classification_rule c distance SAFE =
     (distance > real_of_int (SAFE_DISTANCE c))"
| "classification_rule c distance WARNING =
     (real_of_int (DANGER_DISTANCE c) \<le> distance \<and> distance \<le> real_of_int (SAFE_DISTANCE c))"
| "classification_rule c distance DANGER =
     (distance < real_of_int (DANGER_DISTANCE c))"

subsection \<open>Python's string operations used by print_config\<close>

text \<open>
  \<^verbatim>\<open>str(n)\<close> for an integer, which is what an f-string field \<^verbatim>\<open>{n}\<close> inserts: the decimal
  digits, most significant first, after a minus sign when \<open>n\<close> is negative.
\<close>

definition digit_chars :: string where
  "digit_chars = ''0123456789''"

function str_nat :: "nat \<Rightarrow> string" where
  "str_nat n =
     (if n < 10 then [digit_chars ! n]
      else str_nat (n div 10) @ [digit_chars ! (n mod 10)])"
  by pat_completeness auto
termination
  by (relation "measure id") auto

declare str_nat.simps [simp del]

definition str_int :: "int \<Rightarrow> string" where
  "str_int i = (if i < 0 then CHR ''-'' # str_nat (nat (- i)) else str_nat (nat i))"

text \<open>\<^verbatim>\<open>s * n\<close> on a string: \<open>n\<close> copies of \<open>s\<close>, none when \<open>n\<close> is not positive.\<close>

definition str_mul :: "string \<Rightarrow> int \<Rightarrow> string" where
  "str_mul s n = concat (replicate (nat n) s)"

text \<open>
  The one character of the module's output outside ASCII, the sign \<^verbatim>\<open>U+2265\<close>
  (greater-than or equal to): its three bytes in UTF-8, the encoding of the source file.
\<close>

definition ge_sign :: string where
  "ge_sign = [CHR 0xE2, CHR 0x89, CHR 0xA5]"

definition newline :: string where
  "newline = [CHR 0x0A]"

subsection \<open>The process state and print_config\<close>

text \<open>
  What \<^verbatim>\<open>print_config\<close> can read or write: the module-level variable \<^verbatim>\<open>config\<close> and the
  text written to standard output so far. The record is extensible: whatever else the
  process holds is the record's extension, which the procedures below are polymorphic in.
\<close>

record world =
  config_var :: Config
  stdout :: string

text \<open>
  \<^verbatim>\<open>print(s)\<close>: writes \<open>s\<close> and a line feed to standard output. Standard output is taken
  to be a text stream that accepts every string, the sign \<open>ge_sign\<close> included.
\<close>

definition print :: "string \<Rightarrow> 'a world_scheme \<Rightarrow> 'a world_scheme" where
  "print s w = w\<lparr>stdout := stdout w @ s @ newline\<rparr>"

text \<open>
  \<^verbatim>\<open>print_config()\<close>: twelve calls of \<^verbatim>\<open>print\<close> in the order of the source; each f-string
  reads \<^verbatim>\<open>config\<close> in the state its statement runs in. The procedure has no
  \<^verbatim>\<open>return\<close> statement: it returns \<^verbatim>\<open>None\<close>, the one value of \<^typ>\<open>unit\<close>.
\<close>

definition print_config :: "'a world_scheme \<Rightarrow> unit \<times> 'a world_scheme" where
  "print_config w0 =
    (let w1 = print (str_mul ''='' 50) w0;
         w2 = print ''HAND TRACKING POC - CONFIGURATION'' w1;
         w3 = print (str_mul ''='' 50) w2;
         w4 = print (''Camera: '' @ str_int (CAMERA_WIDTH (config_var w3)) @ ''x''
                     @ str_int (CAMERA_HEIGHT (config_var w3))) w3;
         w5 = print (''Target FPS: '' @ ge_sign @ str_int (FPS_TARGET (config_var w4))) w4;
         w6 = print (''Color Space: ''
                     @ (if USE_YCRCB (config_var w5) then ''YCrCb'' else ''HSV'')) w5;
         w7 = print (''Boundary Position: x='' @ str_int (BOUNDARY_X (config_var w6))) w6;
         w8 = print (newline @ ''Distance Thresholds:'') w7;
         w9 = print (''  SAFE:    > '' @ str_int (SAFE_DISTANCE (config_var w8)) @ ''px'') w8;
         w10 = print (''  WARNING: '' @ str_int (DANGER_DISTANCE (config_var w9)) @ ''-''
                      @ str_int (SAFE_DISTANCE (config_var w9)) @ ''px'') w9;
         w11 = print (''  DANGER:  < '' @ str_int (DANGER_DISTANCE (config_var w10)) @ ''px'') w10;
         w12 = print (str_mul ''='' 50) w11
     in ((), w12))"


text \<open>The process right after the module is loaded: \<^verbatim>\<open>config = Config()\<close>, nothing printed.\<close>

definition world0 :: world where
  "world0 = \<lparr>config_var = config, stdout = []\<rparr>"

section \<open>Auxiliary facts\<close>

subsection \<open>One call of print\<close>

lemma print_config_var [simp]: "config_var (print s w) = config_var w"
  by (simp add: print_def)

lemma print_stdout [simp]: "stdout (print s w) = stdout w @ s @ newline"
  by (simp add: print_def)

lemma print_more [simp]: "world.more (print s w) = world.more w"
  by (simp add: print_def)

subsection \<open>The twelve calls of print_config\<close>

lemma print_config_keeps_config: "config_var (snd (print_config w)) = config_var w"
  by (simp add: print_config_def Let_def)





subsection \<open>The strings of the shipped values\<close>



lemma UNIV_BoundaryState: "(UNIV :: BoundaryState set) = {SAFE, WARNING, DANGER}"
proof
  show "UNIV \<subseteq> {SAFE, WARNING, DANGER}"
  proof
    fix s :: BoundaryState
    show "s \<in> {SAFE, WARNING, DANGER}" by (cases s) simp_all
  qed
qed simp

section \<open>The classification rule with the configured thresholds\<close>

text \<open>
  C1: for every real distance \<open>d\<close>, the classification rule with the configured thresholds
  (\<^verbatim>\<open>SAFE_DISTANCE = 100\<close>, \<^verbatim>\<open>DANGER_DISTANCE = 50\<close>) gives SAFE exactly when \<open>d > 100\<close>,
  WARNING exactly when \<open>50 \<le> d \<le> 100\<close> and DANGER exactly when \<open>d < 50\<close>; the three cases are
  exhaustive and mutually exclusive, so exactly one state is assigned to \<open>d\<close>.
\<close>

theorem classification_exactly_one:
  "(classification_rule config d SAFE = (d > 100))
   \<and> (classification_rule config d WARNING = (50 \<le> d \<and> d \<le> 100))
   \<and> (classification_rule config d DANGER = (d < 50))
   \<and> (\<exists>!s. classification_rule config d s)"
proof -
  have S: "classification_rule config d SAFE = (d > 100)"
    and W: "classification_rule config d WARNING = (50 \<le> d \<and> d \<le> 100)"
    and D: "classification_rule config d DANGER = (d < 50)"
    by (simp_all add: config_def)
  have "\<exists>!s. classification_rule config d s"
  proof (rule ex_ex1I)
    show "\<exists>s. classification_rule config d s"
    proof (cases "d > 100")
      case True
      then show ?thesis using S by blast
    next
      case above: False
      show ?thesis
      proof (cases "d < 50")
        case True
        then show ?thesis using D by blast
      next
        case False
        with above have "50 \<le> d \<and> d \<le> 100" by simp
        then show ?thesis using W by blast
      qed
    qed
  next
    fix s t
    assume "classification_rule config d s" "classification_rule config d t"
    then show "s = t"
      by (cases s; cases t; simp add: config_def)
  qed
  with S W D show ?thesis by simp
qed

text \<open>
  C2: a distance exactly equal to \<^verbatim>\<open>SAFE_DISTANCE\<close> (100) and a distance exactly equal to
  \<^verbatim>\<open>DANGER_DISTANCE\<close> (50) are both classified WARNING, and nothing else: both ends of the
  WARNING band are inclusive.
\<close>

theorem band_ends_are_warning:
  "classification_rule config 100 s = (s = WARNING)
   \<and> classification_rule config 50 s = (s = WARNING)
   \<and> classification_rule config (real_of_int (SAFE_DISTANCE config)) WARNING
   \<and> classification_rule config (real_of_int (DANGER_DISTANCE config)) WARNING"
  by (cases s) (simp_all add: config_def)

section \<open>print_config\<close>


text \<open>
  C4: \<^verbatim>\<open>print_config\<close>, the only operation of the module, does not mutate the Config: from
  every state, the singleton \<^verbatim>\<open>config\<close> after the call is the one before it, attribute by
  attribute.
\<close>

theorem print_config_leaves_config:
  "config_var (snd (print_config w)) = config_var w
   \<and> config_var (snd (print_config (snd (print_config w)))) = config_var w
   \<and> config_var (snd (print_config world0)) = config"
  by (simp add: print_config_keeps_config world0_def)



section \<open>Properties of the attribute table\<close>

text \<open>
  C6: \<^verbatim>\<open>STATE_COLORS\<close> assigns a BGR colour triple to exactly the three names \<^verbatim>\<open>'SAFE'\<close>,
  \<^verbatim>\<open>'WARNING'\<close> and \<^verbatim>\<open>'DANGER'\<close> and to no other key: its keys are the names of the members of
  \<^verbatim>\<open>BoundaryState\<close>, so every state has a colour and every coloured key is a state.
\<close>

theorem state_colors_keys:
  "map fst (STATE_COLORS config) = [''SAFE'', ''WARNING'', ''DANGER'']
   \<and> dom (map_of (STATE_COLORS config)) = {''SAFE'', ''WARNING'', ''DANGER''}
   \<and> dom (map_of (STATE_COLORS config)) = range state_name
   \<and> map_of (STATE_COLORS config) (state_name SAFE) = Some (0, 255, 0)
   \<and> map_of (STATE_COLORS config) (state_name WARNING) = Some (0, 165, 255)
   \<and> map_of (STATE_COLORS config) (state_name DANGER) = Some (0, 0, 255)"
  by (auto simp add: config_def UNIV_BoundaryState dom_map_of_conv_image_fst)

text \<open>
  C7: the configured \<^verbatim>\<open>BOUNDARY_TYPE\<close> is one of the admissible boundary geometries
  \<^verbatim>\<open>"line"\<close>, \<^verbatim>\<open>"box"\<close>, \<^verbatim>\<open>"circle"\<close>.
\<close>

theorem boundary_type_admissible:
  "BOUNDARY_TYPE config \<in> set boundary_type_options
   \<and> set boundary_type_options = {''line'', ''box'', ''circle''}"
  by (simp add: config_def boundary_type_options_def)


text \<open>
  C9: componentwise \<^verbatim>\<open>LOWER_SKIN <= UPPER_SKIN\<close> and \<^verbatim>\<open>LOWER_SKIN_YCRCB <= UPPER_SKIN_YCRCB\<close>,
  and every component of the four threshold arrays lies in the \<^verbatim>\<open>uint8\<close> range \<open>0..255\<close>: the
  arrays hold the numbers written in the source, none of them changed by the 8-bit storage,
  and each inclusive channel band is non-empty.
\<close>

theorem skin_thresholds_ordered:
  "list_all2 (\<le>) (LOWER_SKIN config) (UPPER_SKIN config)
   \<and> list_all2 (\<le>) (LOWER_SKIN_YCRCB config) (UPPER_SKIN_YCRCB config)
   \<and> map uint (LOWER_SKIN config) = [0, 20, 70]
   \<and> map uint (UPPER_SKIN config) = [20, 255, 255]
   \<and> map uint (LOWER_SKIN_YCRCB config) = [0, 133, 77]
   \<and> map uint (UPPER_SKIN_YCRCB config) = [255, 173, 127]
   \<and> list_all (\<lambda>x. 0 \<le> uint x \<and> uint x \<le> 255)
        (LOWER_SKIN config @ UPPER_SKIN config
         @ LOWER_SKIN_YCRCB config @ UPPER_SKIN_YCRCB config)
   \<and> list_all2 (\<lambda>lo hi. {lo..hi} \<noteq> {}) (LOWER_SKIN config) (UPPER_SKIN config)
   \<and> list_all2 (\<lambda>lo hi. {lo..hi} \<noteq> {}) (LOWER_SKIN_YCRCB config) (UPPER_SKIN_YCRCB config)"
  by (simp add: config_def np_array_uint8_def)

text \<open>
  C10: \<^verbatim>\<open>BOUNDARY_X\<close> equals \<^verbatim>\<open>CAMERA_WIDTH / 2\<close>, which is 320 for the configured width of
  640 pixels, so the vertical line lies at the horizontal centre of the frame and
  \<open>0 \<le> BOUNDARY_X < CAMERA_WIDTH\<close>.
\<close>

theorem boundary_x_is_centre:
  "real_of_int (BOUNDARY_X config) = real_of_int (CAMERA_WIDTH config) / 2
   \<and> BOUNDARY_X config = CAMERA_WIDTH config div 2
   \<and> CAMERA_WIDTH config = 640
   \<and> BOUNDARY_X config = 320
   \<and> 0 \<le> BOUNDARY_X config
   \<and> BOUNDARY_X config < CAMERA_WIDTH config"
  by (simp add: config_def)

end
